theory Spec2Isabelle
  imports Main
begin

section \<open>Identity and access provisioning of the chart-breaker back end\<close>

text \<open>
  The development embeds the registration workflow (the handlers of the
  auth-verification router: request-registration, verify-email,
  complete-registration, admin/approve-registration, admin/reject-registration) and
  the two gates of middleware/auth.js (authenticateToken, requireRole).

  Conventions of the embedding:
  \<^item> a handler is a function from the store and the request to the response and the
    store it leaves behind;
  \<^item> what a handler reads from outside (the clock, the random code and token, the
    id the database gives a new row, bcrypt, jwt.verify, whether the database answers
    the lookup of authenticateToken) is an argument, gathered in the record \<open>env\<close>;
    one handler run reads the clock once;
  \<^item> the e-mail test of Joi is the argument \<open>is_email\<close>;
  \<^item> an exception inside a handler's \<open>try\<close> is the value \<open>None\<close> of the store
    operation that throws, and the handler's \<open>catch\<close> turns it into the 500 reply;
    in authenticateToken it is the value \<open>Throws\<close> of the lookup, and the \<open>catch\<close>
    of the gate turns it into its 403 reply;
  \<^item> of a reply the status, the \<open>error\<close> text and the \<open>code\<close> are kept; the other
    fields of the JSON body (details, requestId, token, user, required, current) are
    left out, and so are the approval and rejection mails, whose result the handlers
    do not read and whose send functions catch every error.
\<close>

subsection \<open>JSON values and request bodies\<close>

datatype jv = JUndefined | JNull | JBool bool | JNum int | JStr string | JObj

type_synonym json_object = "(string \<times> jv) list"

text \<open>Reading a property of a parsed body; a property that is not there is undefined.\<close>

definition property :: "json_object \<Rightarrow> string \<Rightarrow> jv" where
  "property b k = (case map_of b k of None \<Rightarrow> JUndefined | Some v \<Rightarrow> v)"

text \<open>JavaScript's truthiness, as \<open>!x\<close> and \<open>x || y\<close> use it.\<close>

fun truthy :: "jv \<Rightarrow> bool" where
  "truthy JUndefined = False"
| "truthy JNull = False"
| "truthy (JBool b) = b"
| "truthy (JNum n) = (n \<noteq> 0)"
| "truthy (JStr s) = (s \<noteq> [])"
| "truthy JObj = True"

subsection \<open>Replies\<close>

datatype response =
    Failure (http: nat) (error: string) (code: "string option")
  | Success (message: string)

fun http_status :: "response \<Rightarrow> nat" where
  "http_status (Failure n e c) = n"
| "http_status (Success m) = 200"

definition validation_error :: response where
  "validation_error = Failure 400 ''Validation error'' None"

definition internal_error :: response where
  "internal_error = Failure 500 ''Internal server error'' None"

subsection \<open>Joi schemas\<close>

text \<open>
  \<open>Joi.string()\<close> with its rules, \<open>required()\<close>: the value must be a string, not
  empty, and pass every rule. The result is the validated string, or \<open>None\<close> for a
  validation error (whose message is not modelled).
\<close>

datatype rule = Min nat | Max nat | Length nat | Valid "string list" | Email

fun rule_ok :: "(string \<Rightarrow> bool) \<Rightarrow> string \<Rightarrow> rule \<Rightarrow> bool" where
  "rule_ok is_email s (Min n) = (n \<le> length s)"
| "rule_ok is_email s (Max n) = (length s \<le> n)"
| "rule_ok is_email s (Length n) = (length s = n)"
| "rule_ok is_email s (Valid vs) = (s \<in> set vs)"
| "rule_ok is_email s Email = is_email s"

fun joi_string :: "(string \<Rightarrow> bool) \<Rightarrow> rule list \<Rightarrow> jv \<Rightarrow> string option" where
  "joi_string is_email rules (JStr s) =
     (if s \<noteq> [] \<and> list_all (rule_ok is_email s) rules then Some s else None)"
| "joi_string is_email rules v = None"

text \<open>\<open>Joi.object\<close> refuses a key the schema does not name.\<close>

definition known_keys :: "string list \<Rightarrow> json_object \<Rightarrow> bool" where
  "known_keys ks b = list_all (\<lambda>k. k \<in> set ks) (map fst b)"

definition requestRegistrationSchema ::
  "(string \<Rightarrow> bool) \<Rightarrow> json_object \<Rightarrow> (string \<times> string \<times> string \<times> string) option" where
  "requestRegistrationSchema is_email b =
     (case (joi_string is_email [Email] (property b ''email''),
            joi_string is_email [Min 2, Max 100] (property b ''firstName''),
            joi_string is_email [Min 2, Max 100] (property b ''lastName''),
            joi_string is_email
              [Valid [''INTAKE_STAFF'', ''CLINICIAN'', ''QA_REVIEWER'', ''BILLER'']]
              (property b ''role'')) of
        (Some e, Some f, Some l, Some r) \<Rightarrow>
          if known_keys [''email'', ''firstName'', ''lastName'', ''role''] b
          then Some (e, f, l, r) else None
      | _ \<Rightarrow> None)"

definition verifyEmailSchema ::
  "(string \<Rightarrow> bool) \<Rightarrow> json_object \<Rightarrow> (string \<times> string) option" where
  "verifyEmailSchema is_email b =
     (case (joi_string is_email [Email] (property b ''email''),
            joi_string is_email [Length 6] (property b ''verificationCode'')) of
        (Some e, Some c) \<Rightarrow>
          if known_keys [''email'', ''verificationCode''] b then Some (e, c) else None
      | _ \<Rightarrow> None)"

definition completeRegistrationSchema ::
  "(string \<Rightarrow> bool) \<Rightarrow> json_object \<Rightarrow> (string \<times> string \<times> string) option" where
  "completeRegistrationSchema is_email b =
     (case (joi_string is_email [Email] (property b ''email''),
            joi_string is_email [Min 8] (property b ''password''),
            joi_string is_email [Min 10] (property b ''token'')) of
        (Some e, Some p, Some t) \<Rightarrow>
          if known_keys [''email'', ''password'', ''token''] b then Some (e, p, t) else None
      | _ \<Rightarrow> None)"

subsection \<open>The store\<close>

text \<open>
  Modelled from the spec: the Prisma schema, which declares the tables User and
  UserRegistrationRequest, is not among the sources. The columns are those of the
  data model of the spec (section 3), under the names the handlers use for them;
  \<open>email\<close> and \<open>id\<close> are unique keys of both tables, and a column that a
  \<open>create\<close> call does not give takes its default (null, and the time of the call
  for \<open>requestedAt\<close>). Times are milliseconds since the epoch. The status is the
  enumeration the handlers write, the role the string they compare.
\<close>

record user =
  uid :: string
  email :: string
  passwordHash :: string
  firstName :: string
  lastName :: string
  role :: string
  isActive :: bool
  lastLogin :: "nat option"

datatype reg_status = PENDING | APPROVED | REJECTED

record registration =
  rid :: string
  r_email :: string
  r_firstName :: string
  r_lastName :: string
  r_role :: string
  status :: reg_status
  verificationCode :: "string option"
  verificationExpires :: "nat option"
  completionToken :: "string option"
  completionTokenExpires :: "nat option"
  approvedAt :: "nat option"
  approvedBy :: "string option"
  adminNotes :: "string option"
  requestedAt :: nat

record store =
  users :: "user list"
  requests :: "registration list"

text \<open>
  \<open>findUnique\<close> is \<open>List.find\<close> on the key. \<open>update\<close> rewrites the row the key
  finds and throws when there is none; \<open>create\<close> throws when the key of the new row
  is taken (a unique constraint).
\<close>

fun update_first :: "('a \<Rightarrow> bool) \<Rightarrow> ('a \<Rightarrow> 'a) \<Rightarrow> 'a list \<Rightarrow> 'a list option" where
  "update_first P f [] = None"
| "update_first P f (x # xs) =
     (if P x then Some (f x # xs) else map_option ((#) x) (update_first P f xs))"

definition user_by_email :: "string \<Rightarrow> user list \<Rightarrow> user option" where
  "user_by_email e us = List.find (\<lambda>u. email u = e) us"

definition user_by_id :: "string \<Rightarrow> user list \<Rightarrow> user option" where
  "user_by_id i us = List.find (\<lambda>u. uid u = i) us"

definition user_create :: "user \<Rightarrow> user list \<Rightarrow> user list option" where
  "user_create u us =
     (if user_by_email (email u) us \<noteq> None \<or> user_by_id (uid u) us \<noteq> None then None
      else Some (us @ [u]))"

definition request_by_email :: "string \<Rightarrow> registration list \<Rightarrow> registration option" where
  "request_by_email e rs = List.find (\<lambda>r. r_email r = e) rs"

definition request_by_id :: "string \<Rightarrow> registration list \<Rightarrow> registration option" where
  "request_by_id i rs = List.find (\<lambda>r. rid r = i) rs"

definition request_create :: "registration \<Rightarrow> registration list \<Rightarrow> registration list option" where
  "request_create r rs =
     (if request_by_email (r_email r) rs \<noteq> None \<or> request_by_id (rid r) rs \<noteq> None then None
      else Some (rs @ [r]))"

definition request_update_email ::
  "string \<Rightarrow> (registration \<Rightarrow> registration) \<Rightarrow> registration list \<Rightarrow> registration list option" where
  "request_update_email e f rs = update_first (\<lambda>r. r_email r = e) f rs"

definition request_update_id ::
  "string \<Rightarrow> (registration \<Rightarrow> registration) \<Rightarrow> registration list \<Rightarrow> registration list option" where
  "request_update_id i f rs = update_first (\<lambda>r. rid r = i) f rs"

definition request_upsert ::
  "string \<Rightarrow> (registration \<Rightarrow> registration) \<Rightarrow> registration \<Rightarrow> registration list
     \<Rightarrow> registration list option" where
  "request_upsert e f new rs =
     (case request_by_email e rs of
        Some r \<Rightarrow> request_update_email e f rs
      | None \<Rightarrow> request_create new rs)"

subsection \<open>What a handler reads from outside\<close>

datatype jwt_error = TokenExpiredError | JsonWebTokenError | NotBeforeError

text \<open>
  \<open>jwt_verify\<close> gives the error \<open>jwt.verify\<close> throws or the payload it returns, a
  JSON object that need not have a \<open>userId\<close>. \<open>lookup_throws\<close> says whether the
  database fails the user lookup of authenticateToken (it cannot be reached, say).
\<close>

record env =
  now :: nat
  random_code :: string
  random_token :: string
  new_id :: string
  bcrypt_hash :: "string \<Rightarrow> string"
  jwt_verify :: "string \<Rightarrow> jwt_error + json_object"
  lookup_throws :: bool

subsection \<open>Request (POST /request-registration)\<close>

definition hours :: "nat \<Rightarrow> nat" where
  "hours n = n * 60 * 60 * 1000"

text \<open>
  \<open>emailService.sendVerificationEmail\<close> returns true on each of its paths: without
  SMTP settings, after a send, and after a send that threw.
\<close>

definition sendVerificationEmail :: "string \<Rightarrow> string \<Rightarrow> string \<Rightarrow> bool" where
  "sendVerificationEmail addr verification_code first_name = True"

definition request_registration ::
  "(string \<Rightarrow> bool) \<Rightarrow> env \<Rightarrow> store \<Rightarrow> json_object \<Rightarrow> response \<times> store" where
  "request_registration is_email E st body =
     (case requestRegistrationSchema is_email body of
        None \<Rightarrow> (validation_error, st)
      | Some (e, f, l, r) \<Rightarrow>
          if e = [] \<or> f = [] \<or> l = [] \<or> r = [] then
            (Failure 400 ''All fields are required'' (Some ''MISSING_FIELDS''), st)
          else if r \<notin> set [''INTAKE_STAFF'', ''CLINICIAN'', ''QA_REVIEWER'', ''BILLER''] then
            (Failure 400 ''Invalid role selected'' (Some ''INVALID_ROLE''), st)
          else if user_by_email e (users st) \<noteq> None then
            (Failure 400 ''User with this email already exists'' (Some ''USER_EXISTS''), st)
          else if (case request_by_email e (requests st) of
                     Some x \<Rightarrow> status x = PENDING | None \<Rightarrow> False) then
            (Failure 400 ''Registration request already pending'' (Some ''REQUEST_PENDING''), st)
          else
            (case request_upsert e
                    (\<lambda>x. x\<lparr>r_firstName := f, r_lastName := l, r_role := r,
                           verificationCode := Some (random_code E),
                           verificationExpires := Some (now E + hours 24),
                           status := PENDING, requestedAt := now E\<rparr>)
                    \<lparr>rid = new_id E, r_email = e, r_firstName = f, r_lastName = l,
                     r_role = r, status = PENDING,
                     verificationCode = Some (random_code E),
                     verificationExpires = Some (now E + hours 24),
                     completionToken = None, completionTokenExpires = None,
                     approvedAt = None, approvedBy = None, adminNotes = None,
                     requestedAt = now E\<rparr>
                    (requests st) of
               None \<Rightarrow> (internal_error, st)
             | Some rs \<Rightarrow>
                 if \<not> sendVerificationEmail e (random_code E) f then
                   (Failure 500 ''Failed to send verification email'' (Some ''EMAIL_SEND_FAILED''),
                    st\<lparr>requests := rs\<rparr>)
                 else
                   (Success ''Registration request submitted. Please check your email for verification code.'',
                    st\<lparr>requests := rs\<rparr>)))"

subsection \<open>Verify (POST /verify-email)\<close>

text \<open>
  \<open>new Date() > verificationExpires\<close> with a null expiry compares against 0, as
  JavaScript converts null to a number.
\<close>

definition verify_email ::
  "(string \<Rightarrow> bool) \<Rightarrow> env \<Rightarrow> store \<Rightarrow> json_object \<Rightarrow> response \<times> store" where
  "verify_email is_email E st body =
     (case verifyEmailSchema is_email body of
        None \<Rightarrow> (validation_error, st)
      | Some (e, c) \<Rightarrow>
          if e = [] \<or> c = [] then
            (Failure 400 ''Email and verification code are required'' (Some ''MISSING_FIELDS''), st)
          else
            (case request_by_email e (requests st) of
               None \<Rightarrow>
                 (Failure 400 ''Registration request not found'' (Some ''REQUEST_NOT_FOUND''), st)
             | Some x \<Rightarrow>
                 if status x \<noteq> PENDING then
                   (Failure 400 ''Registration request is not pending''
                      (Some ''REQUEST_NOT_PENDING''), st)
                 else if verificationCode x \<noteq> Some c then
                   (Failure 400 ''Invalid verification code'' (Some ''INVALID_CODE''), st)
                 else if now E > (case verificationExpires x of None \<Rightarrow> 0 | Some t \<Rightarrow> t) then
                   (Failure 400 ''Verification code has expired'' (Some ''CODE_EXPIRED''), st)
                 else
                   (case request_update_email e
                           (\<lambda>x. x\<lparr>verificationCode := None, verificationExpires := None\<rparr>)
                           (requests st) of
                      None \<Rightarrow> (internal_error, st)
                    | Some rs \<Rightarrow>
                        (Success ''Email verified successfully. Your registration is now pending admin approval.'',
                         st\<lparr>requests := rs\<rparr>))))"

subsection \<open>Complete (POST /complete-registration)\<close>

text \<open>
  The user row is created first and the request row is updated after it, so a throw
  of the second write leaves the first in the store.
\<close>

definition complete_registration ::
  "(string \<Rightarrow> bool) \<Rightarrow> env \<Rightarrow> store \<Rightarrow> json_object \<Rightarrow> response \<times> store" where
  "complete_registration is_email E st body =
     (case completeRegistrationSchema is_email body of
        None \<Rightarrow> (validation_error, st)
      | Some (e, password, tok) \<Rightarrow>
          if e = [] \<or> password = [] \<or> tok = [] then
            (Failure 400 ''Email, password and token are required'' (Some ''MISSING_FIELDS''), st)
          else
            (case request_by_email e (requests st) of
               None \<Rightarrow>
                 (Failure 400 ''Registration request not found'' (Some ''REQUEST_NOT_FOUND''), st)
             | Some x \<Rightarrow>
                 if status x \<noteq> APPROVED then
                   (Failure 400 ''Registration request is not approved''
                      (Some ''REQUEST_NOT_APPROVED''), st)
                 else if (case completionToken x of None \<Rightarrow> True | Some t \<Rightarrow> t = [] \<or> t \<noteq> tok) then
                   (Failure 400 ''Invalid or missing completion token''
                      (Some ''INVALID_COMPLETION_TOKEN''), st)
                 else if (case completionTokenExpires x of None \<Rightarrow> False | Some t \<Rightarrow> now E > t) then
                   (Failure 400 ''Completion token has expired''
                      (Some ''COMPLETION_TOKEN_EXPIRED''), st)
                 else if user_by_email e (users st) \<noteq> None then
                   (Failure 400 ''User already exists'' (Some ''USER_EXISTS''), st)
                 else
                   (case user_create
                           \<lparr>uid = new_id E, email = e, passwordHash = bcrypt_hash E password,
                            firstName = r_firstName x, lastName = r_lastName x,
                            role = r_role x, isActive = True, lastLogin = None\<rparr>
                           (users st) of
                      None \<Rightarrow> (internal_error, st)
                    | Some us \<Rightarrow>
                        (case request_update_email e
                                (\<lambda>x. x\<lparr>status := APPROVED, completionToken := None,
                                       completionTokenExpires := None\<rparr>)
                                (requests st) of
                           None \<Rightarrow> (internal_error, st\<lparr>users := us\<rparr>)
                         | Some rs \<Rightarrow>
                             (Success ''Registration completed successfully'',
                              st\<lparr>users := us, requests := rs\<rparr>)))))"

subsection \<open>The gates (middleware/auth.js)\<close>

text \<open>\<open>s.split(c)\<close> of JavaScript for a one-character separator.\<close>

fun split_on :: "char \<Rightarrow> string \<Rightarrow> string list" where
  "split_on c [] = [[]]"
| "split_on c (x # xs) =
     (if x = c then [] # split_on c xs
      else (case split_on c xs of
              [] \<Rightarrow> [[x]]
            | w # ws \<Rightarrow> (x # w) # ws))"

text \<open>
  \<open>authHeader && authHeader.split(' ')[1]\<close>: undefined (\<open>None\<close>) without a header
  or without a second piece, the empty header itself when the header is empty.
\<close>

definition header_token :: "string option \<Rightarrow> string option" where
  "header_token authHeader =
     (case authHeader of
        None \<Rightarrow> None
      | Some h \<Rightarrow>
          if h = [] then Some []
          else (case split_on (CHR '' '') h of
                  a # t # ts \<Rightarrow> Some t
                | _ \<Rightarrow> None))"

text \<open>
  \<open>prisma.user.findUnique({ where: { id: decoded.userId } })\<close> inside the \<open>try\<close> of
  authenticateToken: the call throws when the database fails it and when the value
  given for \<open>id\<close> is not a string (a payload without \<open>userId\<close>, say); otherwise it
  returns the row with that id or null.
\<close>

datatype 'a attempt = Throws | Returns 'a

definition user_findUnique_id :: "env \<Rightarrow> jv \<Rightarrow> user list \<Rightarrow> user option attempt" where
  "user_findUnique_id E v us =
     (if lookup_throws E then Throws
      else (case v of JStr i \<Rightarrow> Returns (user_by_id i us) | _ \<Rightarrow> Throws))"

text \<open>
  The result of a gate is the reply it sends (\<open>Inl\<close>) or, when it calls \<open>next()\<close>,
  the user that \<open>req.user\<close> holds from then on (\<open>Inr\<close>). The \<open>catch\<close> of
  authenticateToken tells an expired token from every other error by the name of the
  error, so an error thrown by the lookup of the user gets the reply of an invalid
  token.
\<close>

definition authenticateToken :: "env \<Rightarrow> store \<Rightarrow> string option \<Rightarrow> response + user" where
  "authenticateToken E st authHeader =
     (case header_token authHeader of
        None \<Rightarrow> Inl (Failure 401 ''Access token required'' (Some ''MISSING_TOKEN''))
      | Some token \<Rightarrow>
          if token = [] then Inl (Failure 401 ''Access token required'' (Some ''MISSING_TOKEN''))
          else
            (case jwt_verify E token of
               Inl err \<Rightarrow>
                 if err = TokenExpiredError
                 then Inl (Failure 401 ''Token expired'' (Some ''TOKEN_EXPIRED''))
                 else Inl (Failure 403 ''Invalid token'' (Some ''INVALID_TOKEN''))
             | Inr decoded \<Rightarrow>
                 (case user_findUnique_id E (property decoded ''userId'') (users st) of
                    Throws \<Rightarrow> Inl (Failure 403 ''Invalid token'' (Some ''INVALID_TOKEN''))
                  | Returns None \<Rightarrow>
                      Inl (Failure 401 ''Invalid or inactive user'' (Some ''INVALID_USER''))
                  | Returns (Some u) \<Rightarrow>
                      if \<not> isActive u
                      then Inl (Failure 401 ''Invalid or inactive user'' (Some ''INVALID_USER''))
                      else Inr u)))"

definition requireRole :: "string list \<Rightarrow> user option \<Rightarrow> response + user" where
  "requireRole roles req_user =
     (case req_user of
        None \<Rightarrow> Inl (Failure 401 ''Authentication required'' (Some ''AUTH_REQUIRED''))
      | Some u \<Rightarrow>
          if role u \<notin> set roles
          then Inl (Failure 403 ''Insufficient permissions'' (Some ''INSUFFICIENT_PERMISSIONS''))
          else Inr u)"

text \<open>A route behind both gates: \<open>authenticateToken, requireRole(roles)\<close>.\<close>

definition protected_route :: "env \<Rightarrow> store \<Rightarrow> string list \<Rightarrow> string option \<Rightarrow> response + user" where
  "protected_route E st roles authHeader =
     (case authenticateToken E st authHeader of
        Inl r \<Rightarrow> Inl r
      | Inr u \<Rightarrow> requireRole roles (Some u))"

subsection \<open>Approve and Reject (admin routes)\<close>

text \<open>
  \<open>req.user\<close> is the row of User that authenticateToken found, as a JavaScript
  object: its properties are the columns of the row. The key column is \<open>id\<close>
  (every other router of the repository reads \<open>req.user.id\<close>); \<open>userId\<close> is the
  name of a claim inside the signed token, not of a column. The columns createdAt,
  updatedAt and the relation staffProfile, which no handler here reads, are left out.
\<close>

definition user_object :: "user \<Rightarrow> json_object" where
  "user_object u =
     [(''id'', JStr (uid u)), (''email'', JStr (email u)),
      (''passwordHash'', JStr (passwordHash u)), (''firstName'', JStr (firstName u)),
      (''lastName'', JStr (lastName u)), (''role'', JStr (role u)),
      (''isActive'', JBool (isActive u)),
      (''lastLogin'', (case lastLogin u of None \<Rightarrow> JNull | Some t \<Rightarrow> JObj))]"

text \<open>
  A value handed to Prisma for a nullable text column: undefined leaves the column as
  it is, null and a string are written, anything else makes the call throw.
\<close>

datatype 'a column_write = Keep | Put 'a

fun prisma_string :: "jv \<Rightarrow> string option column_write option" where
  "prisma_string JUndefined = Some Keep"
| "prisma_string JNull = Some (Put None)"
| "prisma_string (JStr s) = Some (Put (Some s))"
| "prisma_string v = None"

fun write_column :: "'a column_write \<Rightarrow> 'a \<Rightarrow> 'a" where
  "write_column Keep old = old"
| "write_column (Put v) old = v"

definition approve_handler ::
  "env \<Rightarrow> store \<Rightarrow> user \<Rightarrow> string \<Rightarrow> json_object \<Rightarrow> response \<times> store" where
  "approve_handler E st req_user requestId body =
     (case request_by_id requestId (requests st) of
        None \<Rightarrow> (Failure 404 ''Registration request not found'' (Some ''REQUEST_NOT_FOUND''), st)
      | Some r \<Rightarrow>
          if status r \<noteq> PENDING then
            (Failure 400 ''Registration request is not pending'' (Some ''REQUEST_NOT_PENDING''), st)
          else
            (case (prisma_string (property (user_object req_user) ''userId''),
                   prisma_string (property body ''adminNotes'')) of
               (Some by, Some notes) \<Rightarrow>
                 (case request_update_id requestId
                         (\<lambda>x. x\<lparr>status := APPROVED, approvedAt := Some (now E),
                                approvedBy := write_column by (approvedBy x),
                                adminNotes := write_column notes (adminNotes x),
                                completionToken := Some (random_token E),
                                completionTokenExpires := Some (now E + hours 12)\<rparr>)
                         (requests st) of
                    None \<Rightarrow> (internal_error, st)
                  | Some rs \<Rightarrow>
                      (Success ''Registration request approved successfully'',
                       st\<lparr>requests := rs\<rparr>))
             | _ \<Rightarrow> (internal_error, st)))"

definition reject_handler ::
  "env \<Rightarrow> store \<Rightarrow> user \<Rightarrow> string \<Rightarrow> json_object \<Rightarrow> response \<times> store" where
  "reject_handler E st req_user requestId body =
     (if \<not> truthy (property body ''reason'') then
        (Failure 400 ''Rejection reason is required'' (Some ''MISSING_REASON''), st)
      else
        (case request_by_id requestId (requests st) of
           None \<Rightarrow>
             (Failure 404 ''Registration request not found'' (Some ''REQUEST_NOT_FOUND''), st)
         | Some r \<Rightarrow>
             if status r \<noteq> PENDING then
               (Failure 400 ''Registration request is not pending''
                  (Some ''REQUEST_NOT_PENDING''), st)
             else
               (case (prisma_string (property (user_object req_user) ''userId''),
                      prisma_string
                        (if truthy (property body ''adminNotes'')
                         then property body ''adminNotes'' else property body ''reason'')) of
                  (Some by, Some notes) \<Rightarrow>
                    (case request_update_id requestId
                            (\<lambda>x. x\<lparr>status := REJECTED, approvedAt := Some (now E),
                                   approvedBy := write_column by (approvedBy x),
                                   adminNotes := write_column notes (adminNotes x)\<rparr>)
                            (requests st) of
                       None \<Rightarrow> (internal_error, st)
                     | Some rs \<Rightarrow>
                         (Success ''Registration request rejected successfully'',
                          st\<lparr>requests := rs\<rparr>))
                | _ \<Rightarrow> (internal_error, st))))"

text \<open>The two admin routes: both gates, with the one role ADMIN, then the handler.\<close>

definition approve_registration ::
  "env \<Rightarrow> store \<Rightarrow> string option \<Rightarrow> string \<Rightarrow> json_object \<Rightarrow> response \<times> store" where
  "approve_registration E st authHeader requestId body =
     (case protected_route E st [''ADMIN''] authHeader of
        Inl r \<Rightarrow> (r, st)
      | Inr u \<Rightarrow> approve_handler E st u requestId body)"

definition reject_registration ::
  "env \<Rightarrow> store \<Rightarrow> string option \<Rightarrow> string \<Rightarrow> json_object \<Rightarrow> response \<times> store" where
  "reject_registration E st authHeader requestId body =
     (case protected_route E st [''ADMIN''] authHeader of
        Inl r \<Rightarrow> (r, st)
      | Inr u \<Rightarrow> reject_handler E st u requestId body)"

subsection \<open>Sequences of calls\<close>




subsection \<open>Letter case of an address\<close>

text \<open>
  \<open>email.toLowerCase()\<close>, which the login and register handlers of routes/auth.js
  apply to the address before they look the user up, on the letters A to Z. The
  lookups themselves compare strings exactly, as PostgreSQL does by default (the
  repository asks for \<open>mode: 'insensitive'\<close> where it wants another comparison).
\<close>

definition to_lower :: "string \<Rightarrow> string" where
  "to_lower s =
     map (\<lambda>c. case map_of (zip ''ABCDEFGHIJKLMNOPQRSTUVWXYZ'' ''abcdefghijklmnopqrstuvwxyz'') c of
                None \<Rightarrow> c
              | Some d \<Rightarrow> d) s"

text \<open>
  The lookup of the login handler (routes/auth.js):
  \<open>prisma.user.findUnique({ where: { email: email.toLowerCase() } })\<close>.
\<close>

definition login_lookup :: "string \<Rightarrow> store \<Rightarrow> user option" where
  "login_lookup addr st = user_by_email (to_lower addr) (users st)"

subsection \<open>A small deployment for concrete runs\<close>

text \<open>
  Concrete values of the outside world: an e-mail test that asks for an at sign, a
  token verifier given by a table of the tokens in circulation (every other token
  fails verification; one verified payload has no \<open>userId\<close>), a database that can
  be reached, and a store with an active administrator and a deactivated clinician.
\<close>

definition demo_is_email :: "string \<Rightarrow> bool" where
  "demo_is_email s = (CHR ''@'' \<in> set s)"

definition demo_verify :: "string \<Rightarrow> jwt_error + json_object" where
  "demo_verify t =
     (case map_of
        [(''tok-admin'',
          Inr [(''userId'', JStr ''u1''), (''email'', JStr ''admin@chartbreaker.com''),
               (''role'', JStr ''ADMIN'')]),
         (''tok-nurse'',
          Inr [(''userId'', JStr ''u2''), (''email'', JStr ''nurse@chartbreaker.com''),
               (''role'', JStr ''CLINICIAN'')]),
         (''tok-bare'', Inr [(''email'', JStr ''admin@chartbreaker.com'')]),
         (''tok-old'', Inl TokenExpiredError)] t of
        None \<Rightarrow> Inl JsonWebTokenError
      | Some r \<Rightarrow> r)"

definition demo_env :: env where
  "demo_env =
     \<lparr>now = 1000, random_code = ''123456'',
      random_token = ''00112233445566778899aabbccddeeff0011223344556677'',
      new_id = ''r1'', bcrypt_hash = (\<lambda>p. ''$2a$12$'' @ p), jwt_verify = demo_verify,
      lookup_throws = False\<rparr>"

definition demo_admin :: user where
  "demo_admin =
     \<lparr>uid = ''u1'', email = ''admin@chartbreaker.com'', passwordHash = ''$2a$12$admin123'',
      firstName = ''System'', lastName = ''Administrator'', role = ''ADMIN'',
      isActive = True, lastLogin = None\<rparr>"

definition demo_nurse :: user where
  "demo_nurse =
     \<lparr>uid = ''u2'', email = ''nurse@chartbreaker.com'', passwordHash = ''$2a$12$clinician123'',
      firstName = ''Sarah'', lastName = ''Johnson'', role = ''CLINICIAN'',
      isActive = False, lastLogin = None\<rparr>"

definition demo_store :: store where
  "demo_store = \<lparr>users = [demo_admin, demo_nurse], requests = []\<rparr>"

text \<open>
  The stores a registration for a@x.com passes through: requested at time 1000,
  verified, approved or rejected by the administrator, completed.
\<close>

definition demo_request :: registration where
  "demo_request =
     \<lparr>rid = ''r1'', r_email = ''a@x.com'', r_firstName = ''Ann'', r_lastName = ''Lee'',
      r_role = ''CLINICIAN'', status = PENDING, verificationCode = Some ''123456'',
      verificationExpires = Some (1000 + hours 24), completionToken = None,
      completionTokenExpires = None, approvedAt = None, approvedBy = None,
      adminNotes = None, requestedAt = 1000\<rparr>"

definition demo_pending :: store where
  "demo_pending = demo_store\<lparr>requests := [demo_request]\<rparr>"

definition demo_verified :: store where
  "demo_verified =
     demo_store\<lparr>requests := [demo_request\<lparr>verificationCode := None, verificationExpires := None\<rparr>]\<rparr>"

definition demo_approved :: store where
  "demo_approved =
     demo_store\<lparr>requests :=
       [demo_request\<lparr>verificationCode := None, verificationExpires := None,
          status := APPROVED, approvedAt := Some 1000,
          completionToken := Some ''00112233445566778899aabbccddeeff0011223344556677'',
          completionTokenExpires := Some (1000 + hours 12)\<rparr>]\<rparr>"

definition demo_rejected :: store where
  "demo_rejected =
     demo_store\<lparr>requests :=
       [demo_request\<lparr>verificationCode := None, verificationExpires := None,
          status := REJECTED, approvedAt := Some 1000,
          adminNotes := Some ''incomplete info''\<rparr>]\<rparr>"

definition demo_completed :: store where
  "demo_completed =
     \<lparr>users = [demo_admin, demo_nurse,
         \<lparr>uid = ''u3'', email = ''a@x.com'', passwordHash = ''$2a$12$correct horse'',
          firstName = ''Ann'', lastName = ''Lee'', role = ''CLINICIAN'', isActive = True,
          lastLogin = None\<rparr>],
      requests =
       [demo_request\<lparr>verificationCode := None, verificationExpires := None,
          status := APPROVED, approvedAt := Some 1000,
          completionToken := None, completionTokenExpires := None\<rparr>]\<rparr>"

subsection \<open>Replies the properties name\<close>

definition invalid_completion_token :: response where
  "invalid_completion_token =
     Failure 400 ''Invalid or missing completion token'' (Some ''INVALID_COMPLETION_TOKEN'')"

definition invalid_code :: response where
  "invalid_code = Failure 400 ''Invalid verification code'' (Some ''INVALID_CODE'')"



definition request_pending :: response where
  "request_pending =
     Failure 400 ''Registration request already pending'' (Some ''REQUEST_PENDING'')"

definition user_exists :: response where
  "user_exists = Failure 400 ''User with this email already exists'' (Some ''USER_EXISTS'')"

section \<open>Properties\<close>

subsection \<open>Rows and keys\<close>

lemma update_first_found:
  "update_first P f xs = Some ys \<Longrightarrow> \<exists>x. List.find P xs = Some x"
  by (induction xs arbitrary: ys) (auto split: if_splits)

lemma update_first_total:
  "List.find P xs = Some x \<Longrightarrow> \<exists>ys. update_first P f xs = Some ys"
  by (induction xs) (auto split: if_splits)

lemma update_first_same_key:
  "update_first P f xs = Some ys \<Longrightarrow> List.find P xs = Some x \<Longrightarrow> P (f x) \<Longrightarrow>
   List.find P ys = Some (f x)"
  by (induction xs arbitrary: ys) (auto split: if_splits)



lemma find_key: "List.find P xs = Some x \<Longrightarrow> P x"
  by (auto simp: find_Some_iff)


lemma joi_string_Some:
  "joi_string is_email rules v = Some s \<Longrightarrow>
   v = JStr s \<and> s \<noteq> [] \<and> list_all (rule_ok is_email s) rules"
  by (cases v) (simp_all split: if_splits)

lemma completeRegistrationSchema_Some:
  assumes "completeRegistrationSchema is_email body = Some (e, p, tok)"
  shows "property body ''email'' = JStr e" and "property body ''token'' = JStr tok"
    and "e \<noteq> []" and "p \<noteq> []" and "tok \<noteq> []"
  using assms
  by (auto simp: completeRegistrationSchema_def split: option.splits if_splits
      dest!: joi_string_Some)

lemma requestRegistrationSchema_Some:
  assumes "requestRegistrationSchema is_email body = Some (e, f, l, r)"
  shows "property body ''email'' = JStr e" and "e \<noteq> []" and "f \<noteq> []" and "l \<noteq> []"
    and "r \<noteq> []" and "r \<in> set [''INTAKE_STAFF'', ''CLINICIAN'', ''QA_REVIEWER'', ''BILLER'']"
  using assms
  by (auto simp: requestRegistrationSchema_def split: option.splits if_splits
      dest!: joi_string_Some)

subsection \<open>Concrete runs\<close>

lemmas demo_defs = demo_is_email_def demo_verify_def demo_env_def demo_admin_def demo_nurse_def
  demo_store_def demo_request_def demo_pending_def demo_verified_def demo_approved_def
  demo_rejected_def demo_completed_def

lemmas store_defs = property_def known_keys_def sendVerificationEmail_def user_by_email_def user_by_id_def
  user_findUnique_id_def user_create_def
  request_by_email_def request_by_id_def request_create_def request_update_email_def
  request_update_id_def request_upsert_def hours_def

lemma run_request:
  "request_registration demo_is_email demo_env demo_store
     [(''email'', JStr ''a@x.com''), (''firstName'', JStr ''Ann''),
      (''lastName'', JStr ''Lee''), (''role'', JStr ''CLINICIAN'')]
   = (Success ''Registration request submitted. Please check your email for verification code.'',
      demo_pending)"
  by (simp add: request_registration_def requestRegistrationSchema_def store_defs demo_defs)

lemma run_verify:
  "verify_email demo_is_email (demo_env\<lparr>now := 2000\<rparr>) demo_pending
     [(''email'', JStr ''a@x.com''), (''verificationCode'', JStr ''123456'')]
   = (Success ''Email verified successfully. Your registration is now pending admin approval.'',
      demo_verified)"
  by (simp add: verify_email_def verifyEmailSchema_def store_defs demo_defs)

lemma run_approve:
  "approve_registration demo_env demo_verified (Some ''Bearer tok-admin'') ''r1'' []
   = (Success ''Registration request approved successfully'', demo_approved)"
  by (simp add: approve_registration_def approve_handler_def protected_route_def
      authenticateToken_def requireRole_def header_token_def user_object_def store_defs demo_defs)

lemma run_reject:
  "reject_registration demo_env demo_verified (Some ''Bearer tok-admin'') ''r1''
     [(''reason'', JStr ''incomplete info'')]
   = (Success ''Registration request rejected successfully'', demo_rejected)"
  by (simp add: reject_registration_def reject_handler_def protected_route_def
      authenticateToken_def requireRole_def header_token_def user_object_def store_defs demo_defs)

lemma run_complete:
  "complete_registration demo_is_email (demo_env\<lparr>now := 5000, new_id := ''u3''\<rparr>) demo_approved
     [(''email'', JStr ''a@x.com''), (''password'', JStr ''correct horse''),
      (''token'', JStr ''00112233445566778899aabbccddeeff0011223344556677'')]
   = (Success ''Registration completed successfully'', demo_completed)"
  by (simp add: complete_registration_def completeRegistrationSchema_def store_defs demo_defs)

subsection \<open>The Request step and the gates\<close>

text \<open>
  C1. A request for registration whose role is ADMIN is refused with the validation
  error, whatever the other fields of the body and whatever the store holds, and the
  store is left as it was: no registration request is created or changed.
\<close>

theorem request_admin_role_rejected:
  "property body ''role'' = JStr ''ADMIN'' \<Longrightarrow>
   request_registration is_email E st body = (validation_error, st)"
  by (simp add: request_registration_def requestRegistrationSchema_def
      split: option.splits prod.splits)

theorem request_admin_role_rejected_witness:
  "property [(''email'', JStr ''eve@x.com''), (''firstName'', JStr ''Eve''),
             (''lastName'', JStr ''Moneypenny''), (''role'', JStr ''ADMIN'')] ''role''
     = JStr ''ADMIN'' \<and>
   request_registration demo_is_email demo_env demo_store
     [(''email'', JStr ''eve@x.com''), (''firstName'', JStr ''Eve''),
      (''lastName'', JStr ''Moneypenny''), (''role'', JStr ''ADMIN'')]
     = (validation_error, demo_store)"
  using request_admin_role_rejected
    [of "[(''email'', JStr ''eve@x.com''), (''firstName'', JStr ''Eve''),
          (''lastName'', JStr ''Moneypenny''), (''role'', JStr ''ADMIN'')]"
        demo_is_email demo_env demo_store]
  by (simp add: property_def)

text \<open>
  C2. When the bearer token of a request verifies (valid signature, not expired) and
  the lookup of the user its claims name returns a user whose active flag is off,
  authenticateToken answers 401 with the code INVALID_USER. The result is a reply, not
  a call of \<open>next()\<close>: no user is attached to the request.
\<close>

theorem inactive_user_rejected:
  assumes "header_token authHeader = Some token" and "token \<noteq> []"
    and "jwt_verify E token = Inr decoded"
    and "user_findUnique_id E (property decoded ''userId'') (users st) = Returns (Some u)"
    and "\<not> isActive u"
  shows "authenticateToken E st authHeader
           = Inl (Failure 401 ''Invalid or inactive user'' (Some ''INVALID_USER''))"
  using assms by (simp add: authenticateToken_def)

theorem inactive_user_rejected_witness:
  "header_token (Some ''Bearer tok-nurse'') = Some ''tok-nurse'' \<and> ''tok-nurse'' \<noteq> [] \<and>
   jwt_verify demo_env ''tok-nurse''
     = Inr [(''userId'', JStr ''u2''), (''email'', JStr ''nurse@chartbreaker.com''),
            (''role'', JStr ''CLINICIAN'')] \<and>
   user_findUnique_id demo_env (JStr ''u2'') (users demo_store) = Returns (Some demo_nurse) \<and>
   \<not> isActive demo_nurse \<and>
   authenticateToken demo_env demo_store (Some ''Bearer tok-nurse'')
     = Inl (Failure 401 ''Invalid or inactive user'' (Some ''INVALID_USER''))"
proof -
  let ?d = "[(''userId'', JStr ''u2''), (''email'', JStr ''nurse@chartbreaker.com''),
            (''role'', JStr ''CLINICIAN'')]"
  have h1: "header_token (Some ''Bearer tok-nurse'') = Some ''tok-nurse''"
    by (simp add: header_token_def)
  have h2: "''tok-nurse'' \<noteq> []" by simp
  have h3: "jwt_verify demo_env ''tok-nurse'' = Inr ?d"
    by (simp add: demo_env_def demo_verify_def)
  have p: "property ?d ''userId'' = JStr ''u2''" by (simp add: property_def)
  have h4: "user_findUnique_id demo_env (property ?d ''userId'') (users demo_store)
              = Returns (Some demo_nurse)"
    by (simp add: p user_findUnique_id_def user_by_id_def demo_env_def demo_store_def
        demo_admin_def demo_nurse_def)
  have h5: "\<not> isActive demo_nurse" by (simp add: demo_nurse_def)
  from inactive_user_rejected [OF h1 h2 h3 h4 h5] h1 h2 h3 h4 [unfolded p] h5
  show ?thesis by simp
qed

subsection \<open>Completion\<close>

lemma complete_success_request:
  assumes "complete_registration is_email E st body = (Success m, st')"
  shows "\<exists>e p tok x.
      completeRegistrationSchema is_email body = Some (e, p, tok) \<and>
      request_by_email e (requests st) = Some x \<and>
      request_by_email e (requests st')
        = Some (x\<lparr>status := APPROVED, completionToken := None, completionTokenExpires := None\<rparr>)"
proof -
  from assms obtain e p tok where v: "completeRegistrationSchema is_email body = Some (e, p, tok)"
    by (cases "completeRegistrationSchema is_email body")
      (auto simp: complete_registration_def validation_error_def)
  from assms v obtain x where x: "request_by_email e (requests st) = Some x"
    by (cases "request_by_email e (requests st)")
      (simp_all add: complete_registration_def split: if_splits)
  from assms v x obtain us where us: "user_create
                           \<lparr>uid = new_id E, email = e, passwordHash = bcrypt_hash E p,
                            firstName = r_firstName x, lastName = r_lastName x,
                            role = r_role x, isActive = True, lastLogin = None\<rparr>
                           (users st) = Some us"
    by (simp add: complete_registration_def internal_error_def split: if_splits option.splits)
  from assms v x us obtain rs where
    rs: "request_update_email e
           (\<lambda>x. x\<lparr>status := APPROVED, completionToken := None, completionTokenExpires := None\<rparr>)
           (requests st) = Some rs"
    and st': "st' = st\<lparr>users := us, requests := rs\<rparr>"
    by (simp add: complete_registration_def internal_error_def split: if_splits option.splits)
  from x have k: "r_email x = e" unfolding request_by_email_def by (rule find_key)
  from rs x have "request_by_email e rs
        = Some (x\<lparr>status := APPROVED, completionToken := None, completionTokenExpires := None\<rparr>)"
    unfolding request_update_email_def request_by_email_def
    by (rule update_first_same_key) (simp add: k)
  with v x st' show ?thesis by simp
qed

lemma complete_without_token:
  assumes "request_by_email e (requests st) = Some x" and "status x = APPROVED"
    and "completionToken x = None" and "property body ''email'' = JStr e"
  shows "complete_registration is_email E st body = (validation_error, st) \<or>
         complete_registration is_email E st body = (invalid_completion_token, st)"
proof (cases "completeRegistrationSchema is_email body")
  case None
  then show ?thesis by (simp add: complete_registration_def)
next
  case (Some t)
  obtain e' p tok where t: "t = (e', p, tok)" by (cases t) auto
  from completeRegistrationSchema_Some [OF Some [unfolded t]] assms(4)
  have "e' = e" "e \<noteq> []" "p \<noteq> []" "tok \<noteq> []" by simp_all
  with Some t assms(1-3) show ?thesis
    by (simp add: complete_registration_def invalid_completion_token_def)
qed

text \<open>
  C5. A completion token is used once. After a Complete that succeeds, the request of
  that e-mail address has neither completion token nor expiry; the same Complete
  again, at any later time, is refused with the invalid-token reply, and so is every
  Complete for that address that passes validation (the others are refused by
  validation); none of them changes the store, so no further user is created.
\<close>

theorem completion_token_single_use:
  assumes "complete_registration is_email E st body = (Success m, st')"
  shows "\<exists>e x'. property body ''email'' = JStr e \<and>
           request_by_email e (requests st') = Some x' \<and>
           completionToken x' = None \<and> completionTokenExpires x' = None \<and>
           (\<forall>E'. complete_registration is_email E' st' body = (invalid_completion_token, st')) \<and>
           (\<forall>E' body'. property body' ''email'' = JStr e \<longrightarrow>
              complete_registration is_email E' st' body' = (validation_error, st') \<or>
              complete_registration is_email E' st' body' = (invalid_completion_token, st'))"
proof -
  from complete_success_request [OF assms] obtain e p tok x where
    v: "completeRegistrationSchema is_email body = Some (e, p, tok)" and
    x': "request_by_email e (requests st')
        = Some (x\<lparr>status := APPROVED, completionToken := None, completionTokenExpires := None\<rparr>)"
    by blast
  let ?x' = "x\<lparr>status := APPROVED, completionToken := None, completionTokenExpires := None\<rparr>"
  note f = completeRegistrationSchema_Some [OF v]
  have any: "complete_registration is_email E' st' body' = (validation_error, st') \<or>
        complete_registration is_email E' st' body' = (invalid_completion_token, st')"
    if "property body' ''email'' = JStr e" for E' body'
    by (rule complete_without_token [OF x' _ _ that]) simp_all
  have same: "complete_registration is_email E' st' body = (invalid_completion_token, st')" for E'
    using v x' f(3-5) by (simp add: complete_registration_def invalid_completion_token_def)
  from f(1) x' any same show ?thesis by (intro exI [of _ e] exI [of _ ?x']) simp
qed

theorem completion_token_single_use_witness:
  "complete_registration demo_is_email (demo_env\<lparr>now := 5000, new_id := ''u3''\<rparr>) demo_approved
     [(''email'', JStr ''a@x.com''), (''password'', JStr ''correct horse''),
      (''token'', JStr ''00112233445566778899aabbccddeeff0011223344556677'')]
   = (Success ''Registration completed successfully'', demo_completed) \<and>
   map_option completionToken (request_by_email ''a@x.com'' (requests demo_completed)) = Some None \<and>
   complete_registration demo_is_email (demo_env\<lparr>now := 6000, new_id := ''u4''\<rparr>) demo_completed
     [(''email'', JStr ''a@x.com''), (''password'', JStr ''correct horse''),
      (''token'', JStr ''00112233445566778899aabbccddeeff0011223344556677'')]
   = (invalid_completion_token, demo_completed)"
proof -
  from completion_token_single_use [OF run_complete] obtain e x' where
    e: "property [(''email'', JStr ''a@x.com''), (''password'', JStr ''correct horse''),
      (''token'', JStr ''00112233445566778899aabbccddeeff0011223344556677'')] ''email'' = JStr e"
    and x': "request_by_email e (requests demo_completed) = Some x'" "completionToken x' = None"
    and again: "\<And>E'. complete_registration demo_is_email E' demo_completed
       [(''email'', JStr ''a@x.com''), (''password'', JStr ''correct horse''),
        (''token'', JStr ''00112233445566778899aabbccddeeff0011223344556677'')]
       = (invalid_completion_token, demo_completed)"
    by blast
  from e have "e = ''a@x.com''" by (simp add: property_def)
  with x' again run_complete show ?thesis by simp
qed

subsection \<open>Verification\<close>

lemma verifyEmailSchema_Some:
  assumes "verifyEmailSchema is_email body = Some (e, c)"
  shows "property body ''email'' = JStr e" and "e \<noteq> []" and "c \<noteq> []"
  using assms
  by (auto simp: verifyEmailSchema_def split: option.splits if_splits dest!: joi_string_Some)

lemma verify_success_request:
  assumes "verify_email is_email E st body = (Success m, st')"
  shows "\<exists>e c x.
      verifyEmailSchema is_email body = Some (e, c) \<and>
      request_by_email e (requests st) = Some x \<and> status x = PENDING \<and>
      verificationCode x = Some c \<and>
      request_by_email e (requests st')
        = Some (x\<lparr>verificationCode := None, verificationExpires := None\<rparr>)"
proof -
  from assms obtain e c where v: "verifyEmailSchema is_email body = Some (e, c)"
    by (cases "verifyEmailSchema is_email body")
      (auto simp: verify_email_def validation_error_def)
  from assms v obtain x where x: "request_by_email e (requests st) = Some x"
    by (cases "request_by_email e (requests st)")
      (simp_all add: verify_email_def split: if_splits)
  from assms v x have g: "status x = PENDING" "verificationCode x = Some c"
    by (simp_all add: verify_email_def split: if_splits)
  from assms v x obtain rs where
    rs: "request_update_email e
           (\<lambda>x. x\<lparr>verificationCode := None, verificationExpires := None\<rparr>)
           (requests st) = Some rs"
    and st': "st' = st\<lparr>requests := rs\<rparr>"
    by (simp add: verify_email_def internal_error_def split: if_splits option.splits)
  from x have k: "r_email x = e" unfolding request_by_email_def by (rule find_key)
  from rs x have "request_by_email e rs
        = Some (x\<lparr>verificationCode := None, verificationExpires := None\<rparr>)"
    unfolding request_update_email_def request_by_email_def
    by (rule update_first_same_key) (simp add: k)
  with v x g st' show ?thesis by simp
qed

text \<open>
  C6, as the claim states it, fails: the second Verify with the same address and
  code is not refused for the state of the request (the status is still PENDING) but
  for the code, which the first Verify cleared.
\<close>

theorem verify_twice_invalid_code_counterexample:
  "verify_email demo_is_email (demo_env\<lparr>now := 2000\<rparr>) demo_pending
     [(''email'', JStr ''a@x.com''), (''verificationCode'', JStr ''123456'')]
   = (Success ''Email verified successfully. Your registration is now pending admin approval.'',
      demo_verified) \<and>
   verify_email demo_is_email (demo_env\<lparr>now := 3000\<rparr>) demo_verified
     [(''email'', JStr ''a@x.com''), (''verificationCode'', JStr ''123456'')]
   = (Failure 400 ''Invalid verification code'' (Some ''INVALID_CODE''), demo_verified)"
  by (simp add: verify_email_def verifyEmailSchema_def store_defs demo_defs)

text \<open>
  C6, amended. Take a valid pair of address and code: the body passes the schema with
  address \<open>e\<close> and code \<open>c\<close>, the request of \<open>e\<close> is PENDING and holds the code
  \<open>c\<close>, and the code has not expired at the time of the call (a null expiry counts
  as time 0, as in the source). Then Verify succeeds, and it does so once: it clears
  the code and the expiry and leaves the status PENDING, and the same Verify again, at
  any later time, is refused with the invalid-code reply (400, INVALID_CODE) and
  leaves the store as it is.
\<close>

theorem verify_succeeds_once:
  assumes "verifyEmailSchema is_email body = Some (e, c)"
    and "request_by_email e (requests st) = Some x"
    and "status x = PENDING"
    and "verificationCode x = Some c"
    and "now E \<le> (case verificationExpires x of None \<Rightarrow> 0 | Some t \<Rightarrow> t)"
  shows "\<exists>st'. verify_email is_email E st body
                 = (Success ''Email verified successfully. Your registration is now pending admin approval.'',
                    st') \<and>
               users st' = users st \<and>
               request_by_email e (requests st')
                 = Some (x\<lparr>verificationCode := None, verificationExpires := None\<rparr>) \<and>
               status (x\<lparr>verificationCode := None, verificationExpires := None\<rparr>) = PENDING \<and>
               (\<forall>E'. verify_email is_email E' st' body = (invalid_code, st'))"
proof -
  let ?f = "\<lambda>x. x\<lparr>verificationCode := None, verificationExpires := None\<rparr>"
  note f = verifyEmailSchema_Some [OF assms(1)]
  from assms(2) have k: "r_email x = e" unfolding request_by_email_def by (rule find_key)
  from assms(2) obtain rs where rs: "update_first (\<lambda>r. r_email r = e) ?f (requests st) = Some rs"
    unfolding request_by_email_def using update_first_total by fastforce
  have x': "request_by_email e rs = Some (?f x)"
    unfolding request_by_email_def
    by (rule update_first_same_key [OF rs assms(2) [unfolded request_by_email_def]])
      (simp add: k)
  from assms(5) have "\<not> now E > (case verificationExpires x of None \<Rightarrow> 0 | Some t \<Rightarrow> t)"
    by simp
  with assms(1-4) f(2,3) rs
  have first: "verify_email is_email E st body
                 = (Success ''Email verified successfully. Your registration is now pending admin approval.'',
                    st\<lparr>requests := rs\<rparr>)"
    by (simp add: verify_email_def request_update_email_def)
  have again: "verify_email is_email E' (st\<lparr>requests := rs\<rparr>) body
                 = (invalid_code, st\<lparr>requests := rs\<rparr>)" for E'
    using assms(1,3) x' f(2,3) by (simp add: verify_email_def invalid_code_def)
  from first x' again assms(3) show ?thesis
    by (intro exI [of _ "st\<lparr>requests := rs\<rparr>"]) simp
qed

theorem verify_succeeds_once_witness:
  "verifyEmailSchema demo_is_email
     [(''email'', JStr ''a@x.com''), (''verificationCode'', JStr ''123456'')]
     = Some (''a@x.com'', ''123456'') \<and>
   request_by_email ''a@x.com'' (requests demo_pending) = Some demo_request \<and>
   status demo_request = PENDING \<and> verificationCode demo_request = Some ''123456'' \<and>
   verificationExpires demo_request = Some 86401000 \<and>
   now (demo_env\<lparr>now := 2000\<rparr>) \<le> 86401000 \<and>
   verify_email demo_is_email (demo_env\<lparr>now := 2000\<rparr>) demo_pending
     [(''email'', JStr ''a@x.com''), (''verificationCode'', JStr ''123456'')]
   = (Success ''Email verified successfully. Your registration is now pending admin approval.'',
      demo_verified) \<and>
   verify_email demo_is_email (demo_env\<lparr>now := 3000\<rparr>) demo_verified
     [(''email'', JStr ''a@x.com''), (''verificationCode'', JStr ''123456'')]
   = (invalid_code, demo_verified)"
proof -
  let ?b = "[(''email'', JStr ''a@x.com''), (''verificationCode'', JStr ''123456'')]"
  let ?E = "demo_env\<lparr>now := 2000\<rparr>"
  have h1: "verifyEmailSchema demo_is_email ?b = Some (''a@x.com'', ''123456'')"
    by (simp add: verifyEmailSchema_def store_defs demo_defs)
  have h2: "request_by_email ''a@x.com'' (requests demo_pending) = Some demo_request"
    by (simp add: store_defs demo_defs)
  have h3: "status demo_request = PENDING" by (simp add: demo_defs)
  have h4: "verificationCode demo_request = Some ''123456''" by (simp add: demo_defs)
  have t: "verificationExpires demo_request = Some 86401000"
    by (simp add: demo_defs hours_def)
  have n: "now ?E \<le> 86401000" by simp
  from t n have h5: "now ?E \<le> (case verificationExpires demo_request of None \<Rightarrow> 0 | Some t \<Rightarrow> t)"
    by simp
  from verify_succeeds_once [OF h1 h2 h3 h4 h5] obtain st' where
    first: "verify_email demo_is_email ?E demo_pending ?b
             = (Success ''Email verified successfully. Your registration is now pending admin approval.'',
                st')"
    and again: "\<And>E'. verify_email demo_is_email E' st' ?b = (invalid_code, st')"
    by blast
  from first run_verify have "st' = demo_verified" by simp
  with again [of "demo_env\<lparr>now := 3000\<rparr>"] run_verify h1 h2 h3 h4 t n show ?thesis by simp
qed

subsection \<open>A second Request while one is pending\<close>

text \<open>
  C7, as the claim states it, fails: a Request for an address whose request is PENDING
  does not succeed; it is refused with 400 and the code REQUEST_PENDING.
\<close>

theorem request_while_pending_counterexample:
  "request_by_email ''a@x.com'' (requests demo_pending) = Some demo_request \<and>
   status demo_request = PENDING \<and>
   request_registration demo_is_email (demo_env\<lparr>now := 2000, new_id := ''r2''\<rparr>) demo_pending
     [(''email'', JStr ''a@x.com''), (''firstName'', JStr ''Ann''),
      (''lastName'', JStr ''Lee''), (''role'', JStr ''CLINICIAN'')]
   = (Failure 400 ''Registration request already pending'' (Some ''REQUEST_PENDING''),
      demo_pending)"
  by (simp add: request_registration_def requestRegistrationSchema_def store_defs demo_defs)

text \<open>
  C7, amended. For every address with a request in status PENDING, a further Request
  for that address is refused and leaves the store as it is, so the one pending
  request stays and no second one is created. The reply is the validation error when
  the body does not pass the schema, USER_EXISTS when a user has the address, and
  otherwise 400 with the code REQUEST_PENDING.
\<close>

theorem request_while_pending_refused:
  assumes "request_by_email e (requests st) = Some x" and "status x = PENDING"
    and "property body ''email'' = JStr e"
  shows "snd (request_registration is_email E st body) = st \<and>
         fst (request_registration is_email E st body)
           = (if requestRegistrationSchema is_email body = None then validation_error
              else if user_by_email e (users st) \<noteq> None then user_exists
              else request_pending)"
proof (cases "requestRegistrationSchema is_email body")
  case None
  then show ?thesis by (simp add: request_registration_def)
next
  case (Some t)
  obtain e' f l r where t: "t = (e', f, l, r)" by (cases t) auto
  note s = requestRegistrationSchema_Some [OF Some [unfolded t]]
  from s(1) assms(3) have "e' = e" by simp
  with Some t s assms(1,2) show ?thesis
    by (simp add: request_registration_def user_exists_def request_pending_def)
qed

theorem request_while_pending_refused_witness:
  "request_by_email ''a@x.com'' (requests demo_pending) = Some demo_request \<and>
   status demo_request = PENDING \<and>
   request_registration demo_is_email (demo_env\<lparr>now := 2000, new_id := ''r2''\<rparr>) demo_pending
     [(''email'', JStr ''a@x.com''), (''firstName'', JStr ''Ann''),
      (''lastName'', JStr ''Lee''), (''role'', JStr ''CLINICIAN'')]
   = (request_pending, demo_pending)"
proof -
  let ?b = "[(''email'', JStr ''a@x.com''), (''firstName'', JStr ''Ann''),
      (''lastName'', JStr ''Lee''), (''role'', JStr ''CLINICIAN'')]"
  have h1: "request_by_email ''a@x.com'' (requests demo_pending) = Some demo_request"
    by (simp add: store_defs demo_defs)
  have h2: "status demo_request = PENDING" by (simp add: demo_defs)
  have h3: "property ?b ''email'' = JStr ''a@x.com''" by (simp add: property_def)
  have v: "requestRegistrationSchema demo_is_email ?b \<noteq> None"
    by (simp add: requestRegistrationSchema_def store_defs demo_defs)
  have u: "user_by_email ''a@x.com'' (users demo_pending) = None"
    by (simp add: store_defs demo_defs)
  from request_while_pending_refused [OF h1 h2 h3, of demo_is_email "demo_env\<lparr>now := 2000, new_id := ''r2''\<rparr>"] v u h1 h2
  show ?thesis by (simp add: prod_eq_iff)
qed

subsection \<open>What each handler writes\<close>








lemma req_user_userId: "property (user_object u) ''userId'' = JUndefined"
  by (simp add: user_object_def property_def)

lemma approve_handler_result:
  assumes "approve_handler E st u i body = (r, st')"
  shows "(st' = st \<and> (\<forall>m. r \<noteq> Success m)) \<or>
    (\<exists>x0 w rs. request_by_id i (requests st) = Some x0 \<and> status x0 = PENDING \<and>
       update_first (\<lambda>r. rid r = i)
         (\<lambda>x. x\<lparr>status := APPROVED, approvedAt := Some (now E),
                adminNotes := write_column w (adminNotes x),
                completionToken := Some (random_token E),
                completionTokenExpires := Some (now E + hours 12)\<rparr>)
         (requests st) = Some rs \<and>
       st' = st\<lparr>requests := rs\<rparr>)"
proof (cases "request_by_id i (requests st)")
  case None
  with assms show ?thesis by (auto simp: approve_handler_def)
next
  case x0: (Some x0)
  show ?thesis
  proof (cases "prisma_string (property body ''adminNotes'')")
    case None
    with assms x0 show ?thesis
      by (auto simp: approve_handler_def req_user_userId internal_error_def split: if_splits)
  next
    case nt: (Some w)
    show ?thesis
    proof (cases "update_first (\<lambda>r. rid r = i)
         (\<lambda>x. x\<lparr>status := APPROVED, approvedAt := Some (now E),
                adminNotes := write_column w (adminNotes x),
                completionToken := Some (random_token E),
                completionTokenExpires := Some (now E + hours 12)\<rparr>)
         (requests st)")
      case None
      with assms x0 nt show ?thesis
        by (auto simp: approve_handler_def req_user_userId internal_error_def
            request_update_id_def split: if_splits)
    next
      case (Some rs)
      with assms x0 nt show ?thesis
        by (auto simp: approve_handler_def req_user_userId request_update_id_def
            split: if_splits)
    qed
  qed
qed


subsection \<open>Rejected requests\<close>








subsection \<open>Approve and Reject\<close>

lemma approve_success:
  assumes "approve_handler E st u i body = (Success m, st')"
  shows "\<exists>x w. request_by_id i (requests st) = Some x \<and> status x = PENDING \<and>
           request_by_id i (requests st')
             = Some (x\<lparr>status := APPROVED, approvedAt := Some (now E),
                       adminNotes := write_column w (adminNotes x),
                       completionToken := Some (random_token E),
                       completionTokenExpires := Some (now E + hours 12)\<rparr>)"
  using approve_handler_result [OF assms]
proof (elim disjE exE conjE)
  fix x0 w rs
  assume x0: "request_by_id i (requests st) = Some x0" "status x0 = PENDING"
    and rs: "update_first (\<lambda>r. rid r = i)
         (\<lambda>x. x\<lparr>status := APPROVED, approvedAt := Some (now E),
                adminNotes := write_column w (adminNotes x),
                completionToken := Some (random_token E),
                completionTokenExpires := Some (now E + hours 12)\<rparr>)
         (requests st) = Some rs" and st': "st' = st\<lparr>requests := rs\<rparr>"
  from x0(1) have k: "rid x0 = i" unfolding request_by_id_def by (rule find_key)
  have "request_by_id i rs = Some (x0\<lparr>status := APPROVED, approvedAt := Some (now E),
                adminNotes := write_column w (adminNotes x0),
                completionToken := Some (random_token E),
                completionTokenExpires := Some (now E + hours 12)\<rparr>)"
    unfolding request_by_id_def
    by (rule update_first_same_key [OF rs x0(1) [unfolded request_by_id_def]]) (simp add: k)
  with x0 st' show ?thesis by auto
qed simp










text \<open>
  C4 does not hold of the code. A successful Approve through both gates, by the
  administrator that authenticateToken resolved, does leave the request APPROVED with
  the fresh completion token, an expiry twelve hours after the clock reading and
  the approval time; but the approver column keeps the value it had: the handler
  writes \<open>req.user.userId\<close>, a property the user row does not have, and Prisma
  skips a column whose value is undefined. In the concrete run the administrator has
  the id u1 and the approver column is null before and after.
\<close>

theorem approve_leaves_approver_unrecorded:
  assumes "authenticateToken E st authHeader = Inr admin"
    and "approve_registration E st authHeader i body = (Success m, st')"
  shows "\<exists>x x'. request_by_id i (requests st) = Some x \<and> status x = PENDING \<and>
           request_by_id i (requests st') = Some x' \<and> status x' = APPROVED \<and>
           completionToken x' = Some (random_token E) \<and>
           completionTokenExpires x' = Some (now E + hours 12) \<and>
           approvedAt x' = Some (now E) \<and>
           approvedBy x' = approvedBy x"
proof -
  from assms have "approve_handler E st admin i body = (Success m, st')"
    by (simp add: approve_registration_def protected_route_def requireRole_def
        split: if_splits)
  from approve_success [OF this] show ?thesis by auto
qed

theorem approve_leaves_approver_unrecorded_witness:
  "authenticateToken demo_env demo_verified (Some ''Bearer tok-admin'') = Inr demo_admin \<and>
   uid demo_admin = ''u1'' \<and>
   approve_registration demo_env demo_verified (Some ''Bearer tok-admin'') ''r1'' []
     = (Success ''Registration request approved successfully'', demo_approved) \<and>
   map_option status (request_by_id ''r1'' (requests demo_approved)) = Some APPROVED \<and>
   map_option approvedBy (request_by_id ''r1'' (requests demo_verified)) = Some None \<and>
   map_option approvedBy (request_by_id ''r1'' (requests demo_approved)) = Some None"
proof -
  have h: "authenticateToken demo_env demo_verified (Some ''Bearer tok-admin'') = Inr demo_admin"
    by (simp add: authenticateToken_def header_token_def store_defs demo_defs)
  have u: "uid demo_admin = ''u1''" by (simp add: demo_defs)
  have b: "map_option approvedBy (request_by_id ''r1'' (requests demo_verified)) = Some None"
    by (simp add: store_defs demo_defs)
  from approve_leaves_approver_unrecorded [OF h run_approve] obtain x x' where
    "request_by_id ''r1'' (requests demo_verified) = Some x"
    "request_by_id ''r1'' (requests demo_approved) = Some x'"
    "status x' = APPROVED" "approvedBy x' = approvedBy x"
    by blast
  with b have "map_option status (request_by_id ''r1'' (requests demo_approved)) = Some APPROVED"
    "map_option approvedBy (request_by_id ''r1'' (requests demo_approved)) = Some None"
    by simp_all
  with h u b run_approve show ?thesis by simp
qed

subsection \<open>Status codes of the gates\<close>

text \<open>
  C3, as the claim states it, fails: a token that does not verify for another reason
  than expiry (a forged signature, say) is refused by authenticateToken with 403, not
  401.
\<close>

theorem invalid_token_forbidden_counterexample:
  "header_token (Some ''Bearer forged'') = Some ''forged'' \<and>
   jwt_verify demo_env ''forged'' = Inl JsonWebTokenError \<and>
   authenticateToken demo_env demo_store (Some ''Bearer forged'')
     = Inl (Failure 403 ''Invalid token'' (Some ''INVALID_TOKEN''))"
  by (simp add: authenticateToken_def header_token_def demo_defs)

text \<open>
  C3, amended. authenticateToken answers 401 for a missing token (MISSING_TOKEN), an
  expired token (TOKEN_EXPIRED) and an unknown or inactive user (INVALID_USER), and
  403 with the code INVALID_TOKEN for every other error inside its \<open>try\<close>: a token
  that fails verification for another reason than expiry, and a lookup of the user
  that throws, which it does exactly when the database fails the call or the
  \<open>userId\<close> of the verified payload is not a string. requireRole answers 401
  (AUTH_REQUIRED) when no user is attached and 403 (INSUFFICIENT_PERMISSIONS) when the
  role of the user is not in the allowed list. Neither gate sends any other refusal:
  each refusal has one of these replies, for the cause named with it. So 403 comes
  from a role that is not allowed, from a token that fails verification without being
  expired, and from a lookup that throws, and from nothing else.
\<close>

theorem gate_status_codes:
  "(header_token h = None \<or> header_token h = Some [] \<longrightarrow>
      authenticateToken E st h
        = Inl (Failure 401 ''Access token required'' (Some ''MISSING_TOKEN''))) \<and>
   (header_token h = Some token \<and> token \<noteq> [] \<and> jwt_verify E token = Inl TokenExpiredError \<longrightarrow>
      authenticateToken E st h = Inl (Failure 401 ''Token expired'' (Some ''TOKEN_EXPIRED''))) \<and>
   (header_token h = Some token \<and> token \<noteq> [] \<and> jwt_verify E token = Inl err \<and>
    err \<noteq> TokenExpiredError \<longrightarrow>
      authenticateToken E st h = Inl (Failure 403 ''Invalid token'' (Some ''INVALID_TOKEN''))) \<and>
   (header_token h = Some token \<and> token \<noteq> [] \<and> jwt_verify E token = Inr decoded \<and>
    user_findUnique_id E (property decoded ''userId'') (users st) = Throws \<longrightarrow>
      authenticateToken E st h = Inl (Failure 403 ''Invalid token'' (Some ''INVALID_TOKEN''))) \<and>
   (header_token h = Some token \<and> token \<noteq> [] \<and> jwt_verify E token = Inr decoded \<and>
    (user_findUnique_id E (property decoded ''userId'') (users st) = Returns None \<or>
     (\<exists>u. user_findUnique_id E (property decoded ''userId'') (users st) = Returns (Some u) \<and>
          \<not> isActive u)) \<longrightarrow>
      authenticateToken E st h
        = Inl (Failure 401 ''Invalid or inactive user'' (Some ''INVALID_USER''))) \<and>
   (user_findUnique_id E v us = Throws) = (lookup_throws E \<or> (\<forall>i. v \<noteq> JStr i)) \<and>
   requireRole roles None
     = Inl (Failure 401 ''Authentication required'' (Some ''AUTH_REQUIRED'')) \<and>
   (role u \<notin> set roles \<longrightarrow>
      requireRole roles (Some u)
        = Inl (Failure 403 ''Insufficient permissions'' (Some ''INSUFFICIENT_PERMISSIONS''))) \<and>
   (authenticateToken E st h = Inl r \<and> http_status r \<noteq> 401 \<longrightarrow>
      r = Failure 403 ''Invalid token'' (Some ''INVALID_TOKEN'') \<and>
      (\<exists>t. header_token h = Some t \<and> t \<noteq> [] \<and>
         ((\<exists>e. jwt_verify E t = Inl e \<and> e \<noteq> TokenExpiredError) \<or>
          (\<exists>d. jwt_verify E t = Inr d \<and>
               user_findUnique_id E (property d ''userId'') (users st) = Throws)))) \<and>
   (authenticateToken E st h = Inl r \<and> http_status r = 401 \<longrightarrow>
      r = Failure 401 ''Access token required'' (Some ''MISSING_TOKEN'') \<and>
        (header_token h = None \<or> header_token h = Some []) \<or>
      r = Failure 401 ''Token expired'' (Some ''TOKEN_EXPIRED'') \<and>
        (\<exists>t. header_token h = Some t \<and> t \<noteq> [] \<and> jwt_verify E t = Inl TokenExpiredError) \<or>
      r = Failure 401 ''Invalid or inactive user'' (Some ''INVALID_USER'') \<and>
        (\<exists>t d. header_token h = Some t \<and> t \<noteq> [] \<and> jwt_verify E t = Inr d \<and>
           (user_findUnique_id E (property d ''userId'') (users st) = Returns None \<or>
            (\<exists>u. user_findUnique_id E (property d ''userId'') (users st) = Returns (Some u) \<and>
                 \<not> isActive u)))) \<and>
   (requireRole roles ru = Inl r \<longrightarrow>
      r = Failure 401 ''Authentication required'' (Some ''AUTH_REQUIRED'') \<and> ru = None \<or>
      r = Failure 403 ''Insufficient permissions'' (Some ''INSUFFICIENT_PERMISSIONS'') \<and>
        (\<exists>w. ru = Some w \<and> role w \<notin> set roles))"
proof (intro conjI impI)
  assume "header_token h = None \<or> header_token h = Some []"
  then show "authenticateToken E st h
        = Inl (Failure 401 ''Access token required'' (Some ''MISSING_TOKEN''))"
    by (auto simp: authenticateToken_def)
next
  assume "header_token h = Some token \<and> token \<noteq> [] \<and> jwt_verify E token = Inl TokenExpiredError"
  then show "authenticateToken E st h = Inl (Failure 401 ''Token expired'' (Some ''TOKEN_EXPIRED''))"
    by (simp add: authenticateToken_def)
next
  assume "header_token h = Some token \<and> token \<noteq> [] \<and> jwt_verify E token = Inl err \<and>
    err \<noteq> TokenExpiredError"
  then show "authenticateToken E st h = Inl (Failure 403 ''Invalid token'' (Some ''INVALID_TOKEN''))"
    by (simp add: authenticateToken_def)
next
  assume "header_token h = Some token \<and> token \<noteq> [] \<and> jwt_verify E token = Inr decoded \<and>
    user_findUnique_id E (property decoded ''userId'') (users st) = Throws"
  then show "authenticateToken E st h = Inl (Failure 403 ''Invalid token'' (Some ''INVALID_TOKEN''))"
    by (simp add: authenticateToken_def)
next
  assume "header_token h = Some token \<and> token \<noteq> [] \<and> jwt_verify E token = Inr decoded \<and>
    (user_findUnique_id E (property decoded ''userId'') (users st) = Returns None \<or>
     (\<exists>u. user_findUnique_id E (property decoded ''userId'') (users st) = Returns (Some u) \<and>
          \<not> isActive u))"
  then show "authenticateToken E st h
        = Inl (Failure 401 ''Invalid or inactive user'' (Some ''INVALID_USER''))"
    by (auto simp: authenticateToken_def)
next
  show "(user_findUnique_id E v us = Throws) = (lookup_throws E \<or> (\<forall>i. v \<noteq> JStr i))"
    by (cases v) (simp_all add: user_findUnique_id_def)
next
  show "requireRole roles None
     = Inl (Failure 401 ''Authentication required'' (Some ''AUTH_REQUIRED''))"
    by (simp add: requireRole_def)
next
  assume "role u \<notin> set roles"
  then show "requireRole roles (Some u)
        = Inl (Failure 403 ''Insufficient permissions'' (Some ''INSUFFICIENT_PERMISSIONS''))"
    by (simp add: requireRole_def)
next
  assume a: "authenticateToken E st h = Inl r \<and> http_status r \<noteq> 401"
  then show "r = Failure 403 ''Invalid token'' (Some ''INVALID_TOKEN'')"
    by (auto simp: authenticateToken_def
        split: option.splits if_splits sum.splits attempt.splits)
  from a show "\<exists>t. header_token h = Some t \<and> t \<noteq> [] \<and>
         ((\<exists>e. jwt_verify E t = Inl e \<and> e \<noteq> TokenExpiredError) \<or>
          (\<exists>d. jwt_verify E t = Inr d \<and>
               user_findUnique_id E (property d ''userId'') (users st) = Throws))"
    by (auto simp: authenticateToken_def
        split: option.splits if_splits sum.splits attempt.splits)
next
  assume "authenticateToken E st h = Inl r \<and> http_status r = 401"
  then show "r = Failure 401 ''Access token required'' (Some ''MISSING_TOKEN'') \<and>
        (header_token h = None \<or> header_token h = Some []) \<or>
      r = Failure 401 ''Token expired'' (Some ''TOKEN_EXPIRED'') \<and>
        (\<exists>t. header_token h = Some t \<and> t \<noteq> [] \<and> jwt_verify E t = Inl TokenExpiredError) \<or>
      r = Failure 401 ''Invalid or inactive user'' (Some ''INVALID_USER'') \<and>
        (\<exists>t d. header_token h = Some t \<and> t \<noteq> [] \<and> jwt_verify E t = Inr d \<and>
           (user_findUnique_id E (property d ''userId'') (users st) = Returns None \<or>
            (\<exists>u. user_findUnique_id E (property d ''userId'') (users st) = Returns (Some u) \<and>
                 \<not> isActive u)))"
    by (auto simp: authenticateToken_def
        split: option.splits if_splits sum.splits attempt.splits)
next
  assume "requireRole roles ru = Inl r"
  then show "r = Failure 401 ''Authentication required'' (Some ''AUTH_REQUIRED'') \<and> ru = None \<or>
      r = Failure 403 ''Insufficient permissions'' (Some ''INSUFFICIENT_PERMISSIONS'') \<and>
        (\<exists>w. ru = Some w \<and> role w \<notin> set roles)"
    by (auto simp: requireRole_def split: option.splits if_splits)
qed

theorem gate_status_codes_witness:
  "authenticateToken demo_env demo_store None
     = Inl (Failure 401 ''Access token required'' (Some ''MISSING_TOKEN'')) \<and>
   authenticateToken demo_env demo_store (Some ''Bearer tok-old'')
     = Inl (Failure 401 ''Token expired'' (Some ''TOKEN_EXPIRED'')) \<and>
   authenticateToken demo_env demo_store (Some ''Bearer forged'')
     = Inl (Failure 403 ''Invalid token'' (Some ''INVALID_TOKEN'')) \<and>
   jwt_verify demo_env ''tok-bare'' = Inr [(''email'', JStr ''admin@chartbreaker.com'')] \<and>
   authenticateToken demo_env demo_store (Some ''Bearer tok-bare'')
     = Inl (Failure 403 ''Invalid token'' (Some ''INVALID_TOKEN'')) \<and>
   authenticateToken (demo_env\<lparr>lookup_throws := True\<rparr>) demo_store (Some ''Bearer tok-admin'')
     = Inl (Failure 403 ''Invalid token'' (Some ''INVALID_TOKEN'')) \<and>
   authenticateToken demo_env demo_store (Some ''Bearer tok-nurse'')
     = Inl (Failure 401 ''Invalid or inactive user'' (Some ''INVALID_USER'')) \<and>
   requireRole [''ADMIN''] (Some demo_nurse)
     = Inl (Failure 403 ''Insufficient permissions'' (Some ''INSUFFICIENT_PERMISSIONS'')) \<and>
   requireRole [''ADMIN''] None
     = Inl (Failure 401 ''Authentication required'' (Some ''AUTH_REQUIRED'')) \<and>
   http_status (Failure 403 ''Invalid token'' (Some ''INVALID_TOKEN'')) \<noteq> 401 \<and>
   http_status (Failure 401 ''Token expired'' (Some ''TOKEN_EXPIRED'')) = 401"
proof -
  let ?bare = "[(''email'', JStr ''admin@chartbreaker.com'')]"
  let ?adm = "[(''userId'', JStr ''u1''), (''email'', JStr ''admin@chartbreaker.com''),
               (''role'', JStr ''ADMIN'')]"
  let ?nur = "[(''userId'', JStr ''u2''), (''email'', JStr ''nurse@chartbreaker.com''),
               (''role'', JStr ''CLINICIAN'')]"
  let ?T = "demo_env\<lparr>lookup_throws := True\<rparr>"
  have m: "header_token None = None \<or> header_token None = Some []"
    by (simp add: header_token_def)
  have o: "header_token (Some ''Bearer tok-old'') = Some ''tok-old'' \<and> ''tok-old'' \<noteq> [] \<and>
           jwt_verify demo_env ''tok-old'' = Inl TokenExpiredError"
    by (simp add: header_token_def demo_defs)
  have f: "header_token (Some ''Bearer forged'') = Some ''forged'' \<and> ''forged'' \<noteq> [] \<and>
           jwt_verify demo_env ''forged'' = Inl JsonWebTokenError \<and>
           JsonWebTokenError \<noteq> TokenExpiredError"
    by (simp add: header_token_def demo_defs)
  have vb: "jwt_verify demo_env ''tok-bare'' = Inr ?bare" by (simp add: demo_defs)
  have b: "header_token (Some ''Bearer tok-bare'') = Some ''tok-bare'' \<and> ''tok-bare'' \<noteq> [] \<and>
           jwt_verify demo_env ''tok-bare'' = Inr ?bare \<and>
           user_findUnique_id demo_env (property ?bare ''userId'') (users demo_store) = Throws"
    by (simp add: header_token_def store_defs demo_defs)
  have d: "header_token (Some ''Bearer tok-admin'') = Some ''tok-admin'' \<and> ''tok-admin'' \<noteq> [] \<and>
           jwt_verify ?T ''tok-admin'' = Inr ?adm \<and>
           user_findUnique_id ?T (property ?adm ''userId'') (users demo_store) = Throws"
    by (simp add: header_token_def store_defs demo_defs)
  have n: "header_token (Some ''Bearer tok-nurse'') = Some ''tok-nurse'' \<and> ''tok-nurse'' \<noteq> [] \<and>
           jwt_verify demo_env ''tok-nurse'' = Inr ?nur \<and>
           (user_findUnique_id demo_env (property ?nur ''userId'') (users demo_store)
              = Returns None \<or>
            (\<exists>u. user_findUnique_id demo_env (property ?nur ''userId'') (users demo_store)
                    = Returns (Some u) \<and> \<not> isActive u))"
    by (simp add: header_token_def store_defs demo_defs)
  have r: "role demo_nurse \<notin> set [''ADMIN'']" by (simp add: demo_defs)
  from gate_status_codes [where h = None and E = demo_env and st = demo_store,
      THEN conjunct1] m
  have 1: "authenticateToken demo_env demo_store None
     = Inl (Failure 401 ''Access token required'' (Some ''MISSING_TOKEN''))"
    by (rule mp)
  from gate_status_codes [where h = "Some ''Bearer tok-old''" and E = demo_env
      and st = demo_store and token = "''tok-old''",
      THEN conjunct2, THEN conjunct1] o
  have 2: "authenticateToken demo_env demo_store (Some ''Bearer tok-old'')
     = Inl (Failure 401 ''Token expired'' (Some ''TOKEN_EXPIRED''))"
    by (rule mp)
  from gate_status_codes [where h = "Some ''Bearer forged''" and E = demo_env
      and st = demo_store and token = "''forged''" and err = JsonWebTokenError,
      THEN conjunct2, THEN conjunct2, THEN conjunct1] f
  have 3: "authenticateToken demo_env demo_store (Some ''Bearer forged'')
     = Inl (Failure 403 ''Invalid token'' (Some ''INVALID_TOKEN''))"
    by (rule mp)
  from gate_status_codes [where h = "Some ''Bearer tok-bare''" and E = demo_env
      and st = demo_store and token = "''tok-bare''" and decoded = ?bare,
      THEN conjunct2, THEN conjunct2, THEN conjunct2, THEN conjunct1] b
  have 4: "authenticateToken demo_env demo_store (Some ''Bearer tok-bare'')
     = Inl (Failure 403 ''Invalid token'' (Some ''INVALID_TOKEN''))"
    by (rule mp)
  from gate_status_codes [where h = "Some ''Bearer tok-admin''" and E = ?T
      and st = demo_store and token = "''tok-admin''" and decoded = ?adm,
      THEN conjunct2, THEN conjunct2, THEN conjunct2, THEN conjunct1] d
  have 5: "authenticateToken ?T demo_store (Some ''Bearer tok-admin'')
     = Inl (Failure 403 ''Invalid token'' (Some ''INVALID_TOKEN''))"
    by (rule mp)
  from gate_status_codes [where h = "Some ''Bearer tok-nurse''" and E = demo_env
      and st = demo_store and token = "''tok-nurse''" and decoded = ?nur,
      THEN conjunct2, THEN conjunct2, THEN conjunct2, THEN conjunct2,
      THEN conjunct1] n
  have 6: "authenticateToken demo_env demo_store (Some ''Bearer tok-nurse'')
     = Inl (Failure 401 ''Invalid or inactive user'' (Some ''INVALID_USER''))"
    by (rule mp)
  from gate_status_codes [where roles = "[''ADMIN'']" and u = demo_nurse,
      THEN conjunct2, THEN conjunct2, THEN conjunct2, THEN conjunct2,
      THEN conjunct2, THEN conjunct2, THEN conjunct2, THEN conjunct1] r
  have 7: "requireRole [''ADMIN''] (Some demo_nurse)
     = Inl (Failure 403 ''Insufficient permissions'' (Some ''INSUFFICIENT_PERMISSIONS''))"
    by (rule mp)
  have 8: "requireRole [''ADMIN''] None
     = Inl (Failure 401 ''Authentication required'' (Some ''AUTH_REQUIRED''))"
    by (rule gate_status_codes [where roles = "[''ADMIN'']",
      THEN conjunct2, THEN conjunct2, THEN conjunct2, THEN conjunct2,
      THEN conjunct2, THEN conjunct2, THEN conjunct1])
  from 1 2 3 vb 4 5 6 7 8 show ?thesis by simp
qed

subsection \<open>Users that differ by letter case\<close>

text \<open>
  C9 does not hold of the code. With the user nurse@chartbreaker.com in the store, a
  Request for Nurse@chartbreaker.com is accepted (the lookup compares the address as
  typed), and after Verify, Approve and Complete the store holds two users whose
  addresses differ by letter case only. The login handler lower-cases the address
  first: for Nurse@chartbreaker.com it finds the older user, not the one just
  registered.
\<close>

theorem case_variant_registers_second_user:
  "user_by_email ''nurse@chartbreaker.com'' (users demo_store) = Some demo_nurse \<and>
   to_lower ''Nurse@chartbreaker.com'' = ''nurse@chartbreaker.com'' \<and>
   (let (r1, st1) = request_registration demo_is_email demo_env demo_store
          [(''email'', JStr ''Nurse@chartbreaker.com''), (''firstName'', JStr ''Sarah''),
           (''lastName'', JStr ''Johnson''), (''role'', JStr ''CLINICIAN'')];
        (r2, st2) = verify_email demo_is_email demo_env st1
          [(''email'', JStr ''Nurse@chartbreaker.com''), (''verificationCode'', JStr ''123456'')];
        (r3, st3) = approve_registration demo_env st2 (Some ''Bearer tok-admin'') ''r1'' [];
        (r4, st4) = complete_registration demo_is_email (demo_env\<lparr>new_id := ''u3''\<rparr>) st3
          [(''email'', JStr ''Nurse@chartbreaker.com''), (''password'', JStr ''correct horse''),
           (''token'', JStr ''00112233445566778899aabbccddeeff0011223344556677'')]
    in map http_status [r1, r2, r3, r4] = [200, 200, 200, 200] \<and>
       map email (users st4)
         = [''admin@chartbreaker.com'', ''nurse@chartbreaker.com'', ''Nurse@chartbreaker.com''] \<and>
       map_option uid (user_by_email ''Nurse@chartbreaker.com'' (users st4)) = Some ''u3'' \<and>
       map_option uid (login_lookup ''Nurse@chartbreaker.com'' st4) = Some ''u2'')"
  by (simp add: request_registration_def requestRegistrationSchema_def verify_email_def
      verifyEmailSchema_def approve_registration_def approve_handler_def protected_route_def
      authenticateToken_def requireRole_def header_token_def user_object_def
      complete_registration_def completeRegistrationSchema_def to_lower_def login_lookup_def
      store_defs demo_defs)

end
